theory Spec2Isabelle
  imports Main "HOL-Library.Word"
begin

section \<open>Python text primitives used by the editor\<close>

text \<open>
  Text is a list of characters; a character stands for a code point below 256.
  \<open>str.strip()\<close> and \<open>int(text, 0)\<close> treat the same code points as white space:
  9 to 13, 28 to 32, 133 and 160.
\<close>

definition py_isspace :: "char \<Rightarrow> bool" where
  "py_isspace c =
     (let n = (of_char c :: nat)
      in (9 \<le> n \<and> n \<le> 13) \<or> (28 \<le> n \<and> n \<le> 32) \<or> n = 133 \<or> n = 160)"

text \<open>\<open>text.strip()\<close>: white space removed at both ends.\<close>

definition py_strip :: "string \<Rightarrow> string" where
  "py_strip s = rev (dropWhile py_isspace (rev (dropWhile py_isspace s)))"

text \<open>\<open>text.strip(chars)\<close>: every leading and trailing character that occurs in \<open>chars\<close>
  is removed.\<close>

definition py_strip_chars :: "string \<Rightarrow> string \<Rightarrow> string" where
  "py_strip_chars chars s =
     rev (dropWhile (\<lambda>c. c \<in> set chars) (rev (dropWhile (\<lambda>c. c \<in> set chars) s)))"

text \<open>\<open>text.split(sep)\<close> for a one-character separator: the pieces between the
  separators, empty pieces included; the result is never empty.\<close>

fun py_split :: "char \<Rightarrow> string \<Rightarrow> string list" where
  "py_split sep [] = [[]]"
| "py_split sep (c # cs) =
     (if c = sep then [] # py_split sep cs
      else (let r = py_split sep cs in (c # hd r) # tl r))"


subsection \<open>Integers as text\<close>

text \<open>The value of a digit character, as in the interpreter's digit table:
  \<open>0\<close> to \<open>9\<close>, then the letters in either case from 10 to 35; 37 for every other
  character.\<close>

definition digit_val :: "char \<Rightarrow> nat" where
  "digit_val c =
     (let n = (of_char c :: nat)
      in if 48 \<le> n \<and> n \<le> 57 then n - 48
         else if 97 \<le> n \<and> n \<le> 122 then n - 87
         else if 65 \<le> n \<and> n \<le> 90 then n - 55
         else 37)"

text \<open>The digits of a literal in base \<open>b\<close>, read from the left. An underscore may stand
  between two digits only; the flag says that the previous character was a digit. An
  empty literal, a leading, doubled or trailing underscore, and a character that is no
  digit of the base are refused.\<close>

fun scan_digits :: "nat \<Rightarrow> bool \<Rightarrow> nat \<Rightarrow> string \<Rightarrow> nat option" where
  "scan_digits b after_digit acc [] = (if after_digit then Some acc else None)"
| "scan_digits b after_digit acc (c # cs) =
     (if c = CHR ''_'' then (if after_digit then scan_digits b False acc cs else None)
      else if digit_val c < b then scan_digits b True (acc * b + digit_val c) cs
      else None)"

text \<open>After a base prefix one underscore is allowed before the digits.\<close>

definition after_prefix :: "string \<Rightarrow> string" where
  "after_prefix s = (case s of [] \<Rightarrow> [] | c # cs \<Rightarrow> if c = CHR ''_'' then cs else s)"

text \<open>The unsigned part of \<open>int(text, 0)\<close>: the base is taken from the prefix
  (\<open>0x\<close>, \<open>0o\<close>, \<open>0b\<close> in either case); a literal that starts with \<open>0\<close> and has no
  such prefix is decimal and must be zero.\<close>

definition int_body0 :: "string \<Rightarrow> nat option" where
  "int_body0 s =
     (case s of
        c0 # c1 # rest \<Rightarrow>
          if c0 = CHR ''0'' then
            (if c1 = CHR ''x'' \<or> c1 = CHR ''X'' then scan_digits 16 False 0 (after_prefix rest)
             else if c1 = CHR ''o'' \<or> c1 = CHR ''O'' then scan_digits 8 False 0 (after_prefix rest)
             else if c1 = CHR ''b'' \<or> c1 = CHR ''B'' then scan_digits 2 False 0 (after_prefix rest)
             else (case scan_digits 10 False 0 s of
                     None \<Rightarrow> None
                   | Some v \<Rightarrow> if v = 0 then Some 0 else None))
          else scan_digits 10 False 0 s
      | _ \<Rightarrow> scan_digits 10 False 0 s)"

text \<open>The unsigned part of \<open>int(text)\<close>, base ten: leading zeros are accepted and there
  is no prefix.\<close>

definition int_body10 :: "string \<Rightarrow> nat option" where
  "int_body10 s = scan_digits 10 False 0 s"

text \<open>White space around the literal is dropped; one sign may precede the digits
  directly. \<open>None\<close> stands for \<open>ValueError\<close>.\<close>

definition py_int_with :: "(string \<Rightarrow> nat option) \<Rightarrow> string \<Rightarrow> int option" where
  "py_int_with body text =
     (case py_strip text of
        [] \<Rightarrow> None
      | c # cs \<Rightarrow>
          if c = CHR ''-'' then map_option (\<lambda>n. - int n) (body cs)
          else if c = CHR ''+'' then map_option int (body cs)
          else map_option int (body (c # cs)))"

definition py_int0 :: "string \<Rightarrow> int option" where
  "py_int0 = py_int_with int_body0"

definition py_int10 :: "string \<Rightarrow> int option" where
  "py_int10 = py_int_with int_body10"

text \<open>\<open>str(n)\<close> for an integer: decimal digits, with a minus sign when negative.\<close>

definition digit_char :: "nat \<Rightarrow> char" where
  "digit_char d = char_of (48 + d)"

fun nat_digits :: "nat \<Rightarrow> string" where
  "nat_digits n =
     (if n < 10 then [digit_char n] else nat_digits (n div 10) @ [digit_char (n mod 10)])"

declare nat_digits.simps [simp del]

definition py_str_int :: "int \<Rightarrow> string" where
  "py_str_int i = (if i < 0 then CHR ''-'' # nat_digits (nat (- i)) else nat_digits (nat i))"

section \<open>Errors\<close>

text \<open>
  The first group is what the editor reports to the user (a message box, after which the
  handler returns). The second group names Python exceptions that the handlers do not
  catch: they leave the handler at the point where they are raised.
\<close>

datatype error =
    InvalidInteger | InvalidFloat | OutOfRange | EmptyName | DuplicateName | TypeMismatch
  | InvalidCount | InvalidId | InvalidSlot | SlotConflict | NothingToDelete | UnsupportedType
  | PyKeyError | PyIndexError | PyTypeError | PyValueError | PyAttributeError | PyOverflowError

section \<open>Parsing a list of integers\<close>

text \<open>The loop of \<open>_parse_int_list\<close>: the parts are read in order and the first part that
  does not parse, or lies below the minimum or above the maximum, ends the loop with its
  error.\<close>

fun parse_parts :: "int option \<Rightarrow> int option \<Rightarrow> string list \<Rightarrow> error + int list" where
  "parse_parts minimum maximum [] = Inr []"
| "parse_parts minimum maximum (part # parts) =
     (case py_int0 part of
        None \<Rightarrow> Inl InvalidInteger
      | Some v \<Rightarrow>
          if (case minimum of None \<Rightarrow> False | Some m \<Rightarrow> v < m) then Inl OutOfRange
          else if (case maximum of None \<Rightarrow> False | Some m \<Rightarrow> v > m) then Inl OutOfRange
          else (case parse_parts minimum maximum parts of
                  Inl e \<Rightarrow> Inl e
                | Inr numbers \<Rightarrow> Inr (v # numbers)))"

definition int_list_parts :: "string \<Rightarrow> string list" where
  "int_list_parts stripped =
     map py_strip (filter (\<lambda>part. py_strip part \<noteq> []) (py_split CHR '','' stripped))"

definition parse_int_list :: "string \<Rightarrow> int option \<Rightarrow> int option \<Rightarrow> error + int list" where
  "parse_int_list text minimum maximum =
     (if py_strip text = [] then Inr []
      else parse_parts minimum maximum
             (int_list_parts (py_strip_chars ''[]'' (py_strip text))))"

section \<open>The tag model\<close>

text \<open>
  The twelve tag classes of \<open>TAG_CLASS_MAP\<close>. The classes themselves come from the
  \<open>nbtlib\<close> package, which is not part of the repository; what the editor relies on is
  recorded here. The four integer tags hold a signed value of 8, 16, 32 and 64 bits and
  their constructors refuse a value outside that range with \<open>OutOfRange\<close>, a
  \<open>ValueError\<close>. The three array tags hold elements of 8, 32 and 64 bits. A list carries
  its subtype, \<open>None\<close> standing for the untyped subtype \<open>End\<close> of an empty list. A
  compound is a dictionary in insertion order.

  Both floating-point tags hold a Python float. Floating-point numbers are a type
  parameter \<open>'f\<close>, and the three conversions of the interpreter that the editor calls on
  them (\<open>float(text)\<close>, \<open>str(x)\<close>, \<open>int(x)\<close>) are the fields of \<open>pyfloat\<close>.
\<close>

datatype kind =
    KByte | KShort | KInt | KLong | KFloat | KDouble | KString
  | KByteArray | KIntArray | KLongArray | KCompound | KList

datatype 'f tag =
    Byte "8 word" | Short "16 word" | IntTag "32 word" | Long "64 word"
  | Float 'f | Double 'f
  | String string
  | ByteArray "8 word list" | IntArray "32 word list" | LongArray "64 word list"
  | Compound "(string \<times> 'f tag) list"
  | NbtList "kind option" "'f tag list"

record 'f pyfloat =
  float_of_text :: "string \<Rightarrow> 'f option"
  text_of_float :: "'f \<Rightarrow> string"
  int_of_float :: "'f \<Rightarrow> error + int"

fun kind_of :: "'f tag \<Rightarrow> kind" where
  "kind_of (Byte _) = KByte"
| "kind_of (Short _) = KShort"
| "kind_of (IntTag _) = KInt"
| "kind_of (Long _) = KLong"
| "kind_of (Float _) = KFloat"
| "kind_of (Double _) = KDouble"
| "kind_of (String _) = KString"
| "kind_of (ByteArray _) = KByteArray"
| "kind_of (IntArray _) = KIntArray"
| "kind_of (LongArray _) = KLongArray"
| "kind_of (Compound _) = KCompound"
| "kind_of (NbtList _ _) = KList"

fun kind_name :: "kind \<Rightarrow> string" where
  "kind_name KByte = ''Byte''"
| "kind_name KShort = ''Short''"
| "kind_name KInt = ''Int''"
| "kind_name KLong = ''Long''"
| "kind_name KFloat = ''Float''"
| "kind_name KDouble = ''Double''"
| "kind_name KString = ''String''"
| "kind_name KByteArray = ''ByteArray''"
| "kind_name KIntArray = ''IntArray''"
| "kind_name KLongArray = ''LongArray''"
| "kind_name KCompound = ''Compound''"
| "kind_name KList = ''List''"

text \<open>\<open>TAG_CLASS_MAP.get(type_name)\<close>.\<close>

definition TAG_CLASS_MAP :: "string \<Rightarrow> kind option" where
  "TAG_CLASS_MAP name =
     (if name = ''Byte'' then Some KByte
      else if name = ''Short'' then Some KShort
      else if name = ''Int'' then Some KInt
      else if name = ''Long'' then Some KLong
      else if name = ''Float'' then Some KFloat
      else if name = ''Double'' then Some KDouble
      else if name = ''String'' then Some KString
      else if name = ''ByteArray'' then Some KByteArray
      else if name = ''IntArray'' then Some KIntArray
      else if name = ''LongArray'' then Some KLongArray
      else if name = ''Compound'' then Some KCompound
      else if name = ''List'' then Some KList
      else None)"

text \<open>\<open>type(tag).__name__\<close>; the class of a typed list is named after its subtype.\<close>

fun type_name :: "'f tag \<Rightarrow> string" where
  "type_name (NbtList (Some k) _) = ''List['' @ kind_name k @ '']''"
| "type_name t = kind_name (kind_of t)"

text \<open>Modelled from the spec: the tag classes of \<open>nbtlib\<close> are not part of the
  repository's source. The integer tags are signed integers of 8, 16, 32 and 64 bits;
  the constructor of a tag of \<open>LENGTH('a)\<close> bits refuses a value outside that range
  (\<open>OutOfRange\<close>, a \<open>ValueError\<close>).\<close>

definition int_tag_value :: "int \<Rightarrow> 'a::len word option" where
  "int_tag_value v =
     (if - (2 ^ (LENGTH('a) - 1)) \<le> v \<and> v < 2 ^ (LENGTH('a) - 1) then Some (word_of_int v)
      else None)"

text \<open>Modelled from the spec: the array classes of \<open>nbtlib\<close> are not part of the
  repository's source. The arrays are sequences of integers of 8, 32 and 64 bits; the
  constructor of an array from a list of Python integers refuses an element that does not
  fit the element width (\<open>OverflowError\<close>).\<close>

fun array_values :: "int list \<Rightarrow> error + 'a::len word list" where
  "array_values [] = Inr []"
| "array_values (v # vs) =
     (case int_tag_value v of
        None \<Rightarrow> Inl PyOverflowError
      | Some w \<Rightarrow> (case array_values vs of Inl e \<Rightarrow> Inl e | Inr ws \<Rightarrow> Inr (w # ws)))"

subsection \<open>Creating a tag from text\<close>

definition numeric_from_input :: "('a::len word \<Rightarrow> 'f tag) \<Rightarrow> string \<Rightarrow> error + 'f tag" where
  "numeric_from_input tag_class text =
     (case py_int0 text of
        None \<Rightarrow> Inl InvalidInteger
      | Some v \<Rightarrow> (case int_tag_value v of
                    None \<Rightarrow> Inl InvalidInteger
                  | Some w \<Rightarrow> Inr (tag_class w)))"

definition float_from_input :: "'f pyfloat \<Rightarrow> ('f \<Rightarrow> 'f tag) \<Rightarrow> string \<Rightarrow> error + 'f tag" where
  "float_from_input fl tag_class text =
     (case float_of_text fl text of
        None \<Rightarrow> Inl InvalidFloat
      | Some x \<Rightarrow> Inr (tag_class x))"

definition array_from_input ::
  "('a::len word list \<Rightarrow> 'f tag) \<Rightarrow> int option \<Rightarrow> int option \<Rightarrow> string \<Rightarrow> error + 'f tag" where
  "array_from_input tag_class minimum maximum text =
     (case parse_int_list text minimum maximum of
        Inl e \<Rightarrow> Inl e
      | Inr vs \<Rightarrow> (case array_values vs of Inl e \<Rightarrow> Inl e | Inr ws \<Rightarrow> Inr (tag_class ws)))"

definition create_tag_from_input :: "'f pyfloat \<Rightarrow> string \<Rightarrow> string \<Rightarrow> error + 'f tag" where
  "create_tag_from_input fl type_nm text =
     (case TAG_CLASS_MAP (py_strip type_nm) of
        None \<Rightarrow> Inl UnsupportedType
      | Some KCompound \<Rightarrow> Inr (Compound [])
      | Some KList \<Rightarrow> Inr (NbtList None [])
      | Some KString \<Rightarrow> Inr (String text)
      | Some KByte \<Rightarrow> numeric_from_input Byte text
      | Some KShort \<Rightarrow> numeric_from_input Short text
      | Some KInt \<Rightarrow> numeric_from_input IntTag text
      | Some KLong \<Rightarrow> numeric_from_input Long text
      | Some KFloat \<Rightarrow> float_from_input fl Float text
      | Some KDouble \<Rightarrow> float_from_input fl Double text
      | Some KByteArray \<Rightarrow> array_from_input ByteArray (Some (- 128)) (Some 127) text
      | Some KIntArray \<Rightarrow> array_from_input IntArray None None text
      | Some KLongArray \<Rightarrow> array_from_input LongArray None None text)"

subsection \<open>The text offered for editing\<close>

text \<open>\<open>_update_detail_panel\<close> chooses the editor for the selected tag: a message for a
  container, a text box for an array, an entry field for everything else; and
  \<open>_get_value_input\<close> reads the text back, stripped when it comes from the text box.\<close>

datatype editor_mode = Entry | TextBox | Message

fun value_editor_mode :: "'f tag \<Rightarrow> editor_mode" where
  "value_editor_mode (Compound _) = Message"
| "value_editor_mode (NbtList _ _) = Message"
| "value_editor_mode (ByteArray _) = TextBox"
| "value_editor_mode (IntArray _) = TextBox"
| "value_editor_mode (LongArray _) = TextBox"
| "value_editor_mode _ = Entry"



definition get_value_input :: "editor_mode \<Rightarrow> string \<Rightarrow> string" where
  "get_value_input mode shown =
     (case mode of Entry \<Rightarrow> shown | TextBox \<Rightarrow> py_strip shown | Message \<Rightarrow> [])"

section \<open>Containers\<close>

text \<open>A compound is a Python dictionary: its keys are distinct and kept in insertion
  order. Assigning to a key that is present keeps its position; assigning to a new key
  appends it; \<open>pop\<close> removes the key and hands back its value, or raises \<open>KeyError\<close>.\<close>

definition dict_keys :: "(string \<times> 'v) list \<Rightarrow> string list" where
  "dict_keys d = map fst d"

definition dict_contains :: "(string \<times> 'v) list \<Rightarrow> string \<Rightarrow> bool" where
  "dict_contains d k = (k \<in> set (dict_keys d))"

definition dict_get :: "(string \<times> 'v) list \<Rightarrow> string \<Rightarrow> 'v option" where
  "dict_get d k = map_of d k"

fun dict_set :: "(string \<times> 'v) list \<Rightarrow> string \<Rightarrow> 'v \<Rightarrow> (string \<times> 'v) list" where
  "dict_set [] k v = [(k, v)]"
| "dict_set ((k', v') # d) k v =
     (if k' = k then (k, v) # d else (k', v') # dict_set d k v)"

definition dict_pop :: "(string \<times> 'v) list \<Rightarrow> string \<Rightarrow> error + ('v \<times> (string \<times> 'v) list)" where
  "dict_pop d k =
     (case map_of d k of
        None \<Rightarrow> Inl PyKeyError
      | Some v \<Rightarrow> Inr (v, filter (\<lambda>entry. fst entry \<noteq> k) d))"

text \<open>
  Modelled from the spec: the list class of \<open>nbtlib\<close> is not part of the repository's
  source. When an item is stored in a list (\<open>append\<close>, assignment to an index,
  construction of a typed list from existing items), an item whose kind differs from the
  subtype of the list is refused with \<open>TypeMismatch\<close> (\<open>IncompatibleItemType\<close> in
  the library). The untyped list has the subtype \<open>End\<close>, which no item has; this is
  why \<open>add_child\<close> replaces an untyped list by a typed one before it appends.
\<close>

definition cast_item :: "kind option \<Rightarrow> 'f tag \<Rightarrow> error + 'f tag" where
  "cast_item subtype item =
     (if subtype = Some (kind_of item) then Inr item else Inl TypeMismatch)"

definition list_append :: "kind option \<Rightarrow> 'f tag list \<Rightarrow> 'f tag \<Rightarrow> error + 'f tag list" where
  "list_append subtype items item =
     (case cast_item subtype item of Inl e \<Rightarrow> Inl e | Inr x \<Rightarrow> Inr (items @ [x]))"

definition list_set :: "kind option \<Rightarrow> 'f tag list \<Rightarrow> nat \<Rightarrow> 'f tag \<Rightarrow> error + 'f tag list" where
  "list_set subtype items i item =
     (case cast_item subtype item of
        Inl e \<Rightarrow> Inl e
      | Inr x \<Rightarrow> if i < length items then Inr (items[i := x]) else Inl PyIndexError)"

text \<open>\<open>NbtList[list_type](tag)\<close>: a list of the given subtype made of the items of an
  existing list, each of them cast.\<close>

fun cast_items :: "kind option \<Rightarrow> 'f tag list \<Rightarrow> error + 'f tag list" where
  "cast_items subtype [] = Inr []"
| "cast_items subtype (x # xs) =
     (case cast_item subtype x of
        Inl e \<Rightarrow> Inl e
      | Inr y \<Rightarrow> (case cast_items subtype xs of Inl e \<Rightarrow> Inl e | Inr ys \<Rightarrow> Inr (y # ys)))"

section \<open>Editing operations\<close>

text \<open>
  \<open>NodeInfo\<close>: the selected tag, the container that owns it (none for the root) and
  its key there, a name in a compound and an index in a list. The handlers write to the
  owning container, to the selected tag itself and to the root attribute of the file, and
  to nothing else in the tree; each model below returns the error that ended the handler,
  if any, and the state of what the handler may have written.
\<close>

datatype key = Name string | Index nat

record 'f node_info =
  tag :: "'f tag"
  parent :: "'f tag option"
  key :: "key option"

record 'f applied =
  failure :: "error option"
  parent_after :: "'f tag option"
  root_assigned :: "'f tag option"

text \<open>The rename step of \<open>apply_changes\<close>, for an entry \<open>k\<close> of a compound with entries
  \<open>d\<close>; \<open>new_name\<close> is the stripped text of the name field.\<close>

definition rename_entry :: "(string \<times> 'v) list \<Rightarrow> string \<Rightarrow> string \<Rightarrow> error + (string \<times> 'v) list" where
  "rename_entry d k new_name =
     (if new_name = [] then Inl EmptyName
      else if new_name \<noteq> k \<and> dict_contains d new_name then Inl DuplicateName
      else if new_name \<noteq> k then
        (case dict_pop d k of
           Inl e \<Rightarrow> Inl e
         | Inr (v, d') \<Rightarrow> Inr (dict_set d' new_name v))
      else Inr d)"

text \<open>\<open>parent[key] = new_tag\<close> for the three shapes of owner.\<close>

definition store_in_parent :: "'f tag \<Rightarrow> key \<Rightarrow> 'f tag \<Rightarrow> error + 'f tag" where
  "store_in_parent p k new_tag =
     (case (p, k) of
        (Compound d, Name n) \<Rightarrow> Inr (Compound (dict_set d n new_tag))
      | (NbtList st xs, Index i) \<Rightarrow>
          (case list_set st xs i new_tag of Inl e \<Rightarrow> Inl e | Inr ys \<Rightarrow> Inr (NbtList st ys))
      | _ \<Rightarrow> Inl PyTypeError)"

text \<open>\<open>apply_changes\<close>, with the text of the name field and the text shown in the value
  editor. The rename is carried out first; then the value is read, a tag of the same class
  is created from it and stored under the (possibly new) key.\<close>

definition apply_changes :: "'f pyfloat \<Rightarrow> 'f node_info \<Rightarrow> string \<Rightarrow> string \<Rightarrow> 'f applied" where
  "apply_changes fl info name_text shown =
     (let renamed =
            (case (parent info, key info) of
               (Some (Compound d), Some (Name k)) \<Rightarrow>
                 (case rename_entry d k (py_strip name_text) of
                    Inl e \<Rightarrow> Inl e
                  | Inr d' \<Rightarrow>
                      Inr (Some (Compound d'),
                           if py_strip name_text \<noteq> k then Some (Name (py_strip name_text))
                           else Some (Name k)))
             | _ \<Rightarrow> Inr (parent info, key info))
      in case renamed of
           Inl e \<Rightarrow> \<lparr>failure = Some e, parent_after = parent info, root_assigned = None\<rparr>
         | Inr (p, k) \<Rightarrow>
             if value_editor_mode (tag info) = Message
             then \<lparr>failure = None, parent_after = p, root_assigned = None\<rparr>
             else
               (case create_tag_from_input fl (type_name (tag info))
                       (get_value_input (value_editor_mode (tag info)) shown) of
                  Inl e \<Rightarrow> \<lparr>failure = Some e, parent_after = p, root_assigned = None\<rparr>
                | Inr new_tag \<Rightarrow>
                    (case p of
                       None \<Rightarrow> \<lparr>failure = None, parent_after = None, root_assigned = Some new_tag\<rparr>
                     | Some owner \<Rightarrow>
                         (case k of
                            None \<Rightarrow> \<lparr>failure = Some PyTypeError, parent_after = p,
                                      root_assigned = None\<rparr>
                          | Some k' \<Rightarrow>
                              (case store_in_parent owner k' new_tag of
                                 Inl e \<Rightarrow> \<lparr>failure = Some e, parent_after = p,
                                            root_assigned = None\<rparr>
                               | Inr owner' \<Rightarrow> \<lparr>failure = None, parent_after = Some owner',
                                                 root_assigned = None\<rparr>)))))"

text \<open>\<open>_replace_tag\<close>: the new tag takes the place of the selected one, in the owning
  container or as the root.\<close>

definition replace_tag :: "'f node_info \<Rightarrow> 'f tag \<Rightarrow> error + ('f tag option \<times> 'f tag option)" where
  "replace_tag info new_tag =
     (case parent info of
        None \<Rightarrow> Inr (None, Some new_tag)
      | Some owner \<Rightarrow>
          (case key info of
             None \<Rightarrow> Inl PyTypeError
           | Some k \<Rightarrow>
               (case store_in_parent owner k new_tag of
                  Inl e \<Rightarrow> Inl e
                | Inr owner' \<Rightarrow> Inr (Some owner', None))))"

record 'f added =
  add_failure :: "error option"
  selected_after :: "'f tag"
  owner_after :: "'f tag option"
  root_after :: "'f tag option"

text \<open>The list branch of \<open>add_child\<close>, for the selected list with subtype \<open>st\<close> and items
  \<open>xs\<close>, and the type name and value text that the dialog hands back. The tag is created
  first. An untyped list is then replaced, where it is owned, by a list typed after the
  chosen type name, and the new tag is appended to that list. A typed list is appended
  to in place: its owner is not written and is handed back as it was given.\<close>

definition add_list_entry ::
  "'f pyfloat \<Rightarrow> 'f node_info \<Rightarrow> kind option \<Rightarrow> 'f tag list \<Rightarrow> string \<Rightarrow> string \<Rightarrow> 'f added" where
  "add_list_entry fl info st xs type_nm text =
     (let unchanged = \<lparr>add_failure = None, selected_after = NbtList st xs,
                       owner_after = parent info, root_after = None\<rparr>
      in case create_tag_from_input fl type_nm text of
           Inl e \<Rightarrow> unchanged\<lparr>add_failure := Some e\<rparr>
         | Inr new_tag \<Rightarrow>
             if st = None then
               (case TAG_CLASS_MAP type_nm of
                  None \<Rightarrow> unchanged\<lparr>add_failure := Some UnsupportedType\<rparr>
                | Some list_type \<Rightarrow>
                    (case cast_items (Some list_type) xs of
                       Inl e \<Rightarrow> unchanged\<lparr>add_failure := Some e\<rparr>
                     | Inr ys \<Rightarrow>
                         (case replace_tag info (NbtList (Some list_type) ys) of
                            Inl e \<Rightarrow> unchanged\<lparr>add_failure := Some e\<rparr>
                          | Inr (p1, r1) \<Rightarrow>
                              (case list_append (Some list_type) ys new_tag of
                                 Inl e \<Rightarrow>
                                   \<lparr>add_failure = Some e,
                                    selected_after = NbtList (Some list_type) ys,
                                    owner_after = p1, root_after = r1\<rparr>
                               | Inr zs \<Rightarrow>
                                   (case replace_tag info (NbtList (Some list_type) zs) of
                                      Inl e \<Rightarrow> unchanged\<lparr>add_failure := Some e\<rparr>
                                    | Inr (p2, r2) \<Rightarrow>
                                        \<lparr>add_failure = None,
                                         selected_after = NbtList (Some list_type) zs,
                                         owner_after = p2, root_after = r2\<rparr>)))))
             else
               (case list_append st xs new_tag of
                  Inl e \<Rightarrow> unchanged\<lparr>add_failure := Some e\<rparr>
                | Inr zs \<Rightarrow> unchanged\<lparr>selected_after := NbtList st zs\<rparr>))"

text \<open>The compound branch of \<open>add_child\<close>.\<close>

definition add_compound_entry ::
  "'f pyfloat \<Rightarrow> (string \<times> 'f tag) list \<Rightarrow> string \<Rightarrow> string \<Rightarrow> string
     \<Rightarrow> error + (string \<times> 'f tag) list" where
  "add_compound_entry fl d name type_nm text =
     (if dict_contains d name then Inl DuplicateName
      else case create_tag_from_input fl type_nm text of
             Inl e \<Rightarrow> Inl e
           | Inr new_tag \<Rightarrow> Inr (dict_set d name new_tag))"

definition add_child :: "'f pyfloat \<Rightarrow> 'f node_info \<Rightarrow> string \<Rightarrow> string \<Rightarrow> string \<Rightarrow> 'f added" where
  "add_child fl info name type_nm text =
     (case tag info of
        Compound d \<Rightarrow>
          (case add_compound_entry fl d name type_nm text of
             Inl e \<Rightarrow> \<lparr>add_failure = Some e, selected_after = tag info,
                        owner_after = parent info, root_after = None\<rparr>
           | Inr d' \<Rightarrow> \<lparr>add_failure = None, selected_after = Compound d',
                         owner_after = parent info, root_after = None\<rparr>)
      | NbtList st xs \<Rightarrow> add_list_entry fl info st xs type_nm text
      | _ \<Rightarrow> \<lparr>add_failure = None, selected_after = tag info,
                owner_after = parent info, root_after = None\<rparr>)"

text \<open>The well-formedness of a list: every item has the subtype of the list, and an
  untyped list is empty.\<close>

fun list_typed :: "'f tag \<Rightarrow> bool" where
  "list_typed (NbtList st xs) = (list_all (\<lambda>x. st = Some (kind_of x)) xs)"
| "list_typed _ = False"

fun subtype_of :: "'f tag \<Rightarrow> kind option" where
  "subtype_of (NbtList st xs) = st"
| "subtype_of _ = None"

section \<open>The inventory view\<close>

text \<open>\<open>int(tag)\<close> for a tag: the value of an integer tag, the truncation of a float,
  the decimal reading of a string, the only element of an array of length one;
  \<open>TypeError\<close> for the rest.\<close>

fun py_int_of_tag :: "'f pyfloat \<Rightarrow> 'f tag \<Rightarrow> error + int" where
  "py_int_of_tag fl (Byte w) = Inr (sint w)"
| "py_int_of_tag fl (Short w) = Inr (sint w)"
| "py_int_of_tag fl (IntTag w) = Inr (sint w)"
| "py_int_of_tag fl (Long w) = Inr (sint w)"
| "py_int_of_tag fl (Float x) = int_of_float fl x"
| "py_int_of_tag fl (Double x) = int_of_float fl x"
| "py_int_of_tag fl (String s) = (case py_int10 s of None \<Rightarrow> Inl PyValueError | Some v \<Rightarrow> Inr v)"
| "py_int_of_tag fl (ByteArray ws) = (case ws of [w] \<Rightarrow> Inr (sint w) | _ \<Rightarrow> Inl PyTypeError)"
| "py_int_of_tag fl (IntArray ws) = (case ws of [w] \<Rightarrow> Inr (sint w) | _ \<Rightarrow> Inl PyTypeError)"
| "py_int_of_tag fl (LongArray ws) = (case ws of [w] \<Rightarrow> Inr (sint w) | _ \<Rightarrow> Inl PyTypeError)"
| "py_int_of_tag fl (Compound _) = Inl PyTypeError"
| "py_int_of_tag fl (NbtList _ _) = Inl PyTypeError"

text \<open>\<open>int(item.get("Slot", Byte(0)))\<close>; only a compound has \<open>get\<close>.\<close>

definition slot_of :: "'f pyfloat \<Rightarrow> 'f tag \<Rightarrow> error + int" where
  "slot_of fl item =
     (case item of
        Compound d \<Rightarrow>
          (case dict_get d ''Slot'' of
             None \<Rightarrow> py_int_of_tag fl (Byte 0)
           | Some t \<Rightarrow> py_int_of_tag fl t)
      | _ \<Rightarrow> Inl PyAttributeError)"

text \<open>The loop of \<open>_populate_inventory_frame\<close> that fills \<open>items_by_slot\<close>.\<close>

fun fill_slots :: "'f pyfloat \<Rightarrow> 'f tag list \<Rightarrow> (int \<rightharpoonup> 'f tag) \<Rightarrow> error + (int \<rightharpoonup> 'f tag)" where
  "fill_slots fl [] m = Inr m"
| "fill_slots fl (item # items) m =
     (case slot_of fl item of
        Inl e \<Rightarrow> Inl e
      | Inr slot_value \<Rightarrow> fill_slots fl items (m(slot_value \<mapsto> item)))"

definition items_by_slot :: "'f pyfloat \<Rightarrow> 'f tag list \<Rightarrow> error + (int \<rightharpoonup> 'f tag)" where
  "items_by_slot fl inventory = fill_slots fl inventory Map.empty"

text \<open>\<open>_find_inventory_item\<close>. An entry of the list is the object at one index (the
  entries of a loaded list are distinct objects), so the entry to exclude and the entry
  found are given by index; \<open>i\<close> is the index of the head of the remaining list.\<close>

fun find_from :: "'f pyfloat \<Rightarrow> nat \<Rightarrow> 'f tag list \<Rightarrow> int \<Rightarrow> nat option \<Rightarrow> error + nat option" where
  "find_from fl i [] slot exclude = Inr None"
| "find_from fl i (item # items) slot exclude =
     (if exclude = Some i then find_from fl (Suc i) items slot exclude
      else case slot_of fl item of
             Inl e \<Rightarrow> Inl e
           | Inr s \<Rightarrow> if s = slot then Inr (Some i)
                      else find_from fl (Suc i) items slot exclude)"

definition find_inventory_item ::
  "'f pyfloat \<Rightarrow> 'f tag list \<Rightarrow> int \<Rightarrow> nat option \<Rightarrow> error + nat option" where
  "find_inventory_item fl inventory slot exclude = find_from fl 0 inventory slot exclude"

text \<open>What \<open>ItemEditorDialog\<close> hands back: nothing when cancelled, a deletion, or the
  slot, identifier and count checked by \<open>_on_save\<close>.\<close>

datatype dialog_result = Cancelled | Delete | Save int string int



text \<open>The three fields that a save writes; \<open>Byte(...)\<close> refuses a value outside
  \<open>[-128, 127]\<close> with \<open>OutOfRange\<close>, which \<open>_edit_inventory_item\<close> does not catch.\<close>

definition new_item_fields :: "8 word \<Rightarrow> string \<Rightarrow> 8 word \<Rightarrow> (string \<times> 'f tag) list" where
  "new_item_fields slot_byte new_id count_byte =
     dict_set (dict_set (dict_set [] ''Slot'' (Byte slot_byte)) ''id'' (String new_id))
       ''Count'' (Byte count_byte)"

text \<open>The write of a save, once no conflict was found: without an entry for the slot a
  new compound is built and appended; otherwise the three fields of the entry at index
  \<open>i\<close> are assigned one after the other.\<close>

definition store_item ::
  "kind option \<Rightarrow> 'f tag list \<Rightarrow> nat option \<Rightarrow> int \<Rightarrow> string \<Rightarrow> int
     \<Rightarrow> error option \<times> 'f tag list" where
  "store_item st inventory item new_slot new_id new_count =
     (case item of
        None \<Rightarrow>
          (case int_tag_value new_slot of
             None \<Rightarrow> (Some OutOfRange, inventory)
           | Some slot_byte \<Rightarrow>
               (case int_tag_value new_count of
                  None \<Rightarrow> (Some OutOfRange, inventory)
                | Some count_byte \<Rightarrow>
                    (case list_append st inventory
                            (Compound (new_item_fields slot_byte new_id count_byte)) of
                       Inl e \<Rightarrow> (Some e, inventory)
                     | Inr inventory' \<Rightarrow> (None, inventory'))))
      | Some i \<Rightarrow>
          if \<not> i < length inventory then (Some PyIndexError, inventory)
          else
            (case inventory ! i of
               Compound d \<Rightarrow>
                 (case int_tag_value new_slot of
                    None \<Rightarrow> (Some OutOfRange, inventory)
                  | Some slot_byte \<Rightarrow>
                      (let d2 = dict_set (dict_set d ''Slot'' (Byte slot_byte)) ''id''
                                  (String new_id)
                       in case int_tag_value new_count of
                            None \<Rightarrow> (Some OutOfRange, inventory[i := Compound d2])
                          | Some count_byte \<Rightarrow>
                              (None, inventory[i := Compound
                                                      (dict_set d2 ''Count'' (Byte count_byte))])))
             | _ \<Rightarrow> (Some PyTypeError, inventory)))"

text \<open>\<open>inventory_tag.sort(key=...)\<close>: the keys of all entries are computed first, an
  error among them leaving the list as it was; the sort is stable.\<close>

fun slots_of :: "'f pyfloat \<Rightarrow> 'f tag list \<Rightarrow> error + int list" where
  "slots_of fl [] = Inr []"
| "slots_of fl (entry # entries) =
     (case slot_of fl entry of
        Inl e \<Rightarrow> Inl e
      | Inr s \<Rightarrow> (case slots_of fl entries of Inl e \<Rightarrow> Inl e | Inr ss \<Rightarrow> Inr (s # ss)))"

definition slot_key :: "'f pyfloat \<Rightarrow> 'f tag \<Rightarrow> int" where
  "slot_key fl entry = (case slot_of fl entry of Inl e \<Rightarrow> 0 | Inr s \<Rightarrow> s)"

definition sort_inventory :: "'f pyfloat \<Rightarrow> 'f tag list \<Rightarrow> error + 'f tag list" where
  "sort_inventory fl inventory =
     (case slots_of fl inventory of
        Inl e \<Rightarrow> Inl e
      | Inr ss \<Rightarrow> Inr (sort_key (slot_key fl) inventory))"

record 'f edited =
  edit_failure :: "error option"
  inventory_after :: "'f tag list"

text \<open>\<open>_edit_inventory_item\<close> for the list with subtype \<open>st\<close> and entries
  \<open>inventory\<close>, the slot of the button and the result of the dialog. A deletion removes
  the entry found for the slot.\<close>

definition edit_inventory_item ::
  "'f pyfloat \<Rightarrow> kind option \<Rightarrow> 'f tag list \<Rightarrow> int \<Rightarrow> dialog_result \<Rightarrow> 'f edited" where
  "edit_inventory_item fl st inventory slot result =
     (case find_inventory_item fl inventory slot None of
        Inl e \<Rightarrow> \<lparr>edit_failure = Some e, inventory_after = inventory\<rparr>
      | Inr item \<Rightarrow>
          (case result of
             Cancelled \<Rightarrow> \<lparr>edit_failure = None, inventory_after = inventory\<rparr>
           | Delete \<Rightarrow>
               (case item of
                  None \<Rightarrow> \<lparr>edit_failure = Some NothingToDelete, inventory_after = inventory\<rparr>
                | Some i \<Rightarrow>
                    \<lparr>edit_failure = None,
                     inventory_after = take i inventory @ drop (Suc i) inventory\<rparr>)
           | Save new_slot new_id new_count \<Rightarrow>
               (case find_inventory_item fl inventory new_slot item of
                  Inl e \<Rightarrow> \<lparr>edit_failure = Some e, inventory_after = inventory\<rparr>
                | Inr (Some conflict) \<Rightarrow>
                    \<lparr>edit_failure = Some SlotConflict, inventory_after = inventory\<rparr>
                | Inr None \<Rightarrow>
                    (case store_item st inventory item new_slot new_id new_count of
                       (Some e, inventory') \<Rightarrow>
                         \<lparr>edit_failure = Some e, inventory_after = inventory'\<rparr>
                     | (None, inventory') \<Rightarrow>
                         (case sort_inventory fl inventory' of
                            Inl e \<Rightarrow> \<lparr>edit_failure = Some e, inventory_after = inventory'\<rparr>
                          | Inr sorted_inventory \<Rightarrow>
                              \<lparr>edit_failure = None,
                               inventory_after = sorted_inventory\<rparr>)))))"

section \<open>The bracket rule in the words of the specification\<close>



section \<open>An instance of the floating-point parameter\<close>

text \<open>For evaluating the operations on concrete trees the floating-point parameter is
  instantiated with the integers, written and read in decimal.\<close>

definition integral_floats :: "int pyfloat" where
  "integral_floats =
     \<lparr>float_of_text = py_int10, text_of_float = py_str_int, int_of_float = Inr\<rparr>"

section \<open>Properties\<close>

subsection \<open>Dictionaries\<close>





subsection \<open>A rejected value after a rename\<close>

lemma strip_b: "py_strip ''b'' = ''b''"
  by code_simp
lemma int_nan: "py_int0 ''not-a-number'' = None"
  by code_simp
lemma map_Int: "TAG_CLASS_MAP (py_strip ''Int'') = Some KInt"
  by code_simp

text \<open>
  Claim C1. A replace-value operation whose text cannot be coerced is rejected and the
  tree is left unchanged, also when the same apply asked for a rename. The code renames
  first: for the entry \<open>a\<close> of the compound \<open>{a: Int 1}\<close>, the name \<open>b\<close> and
  the value text \<open>not-a-number\<close>, the apply is rejected with \<open>InvalidInteger\<close> and the
  compound is \<open>{b: Int 1}\<close> afterwards.
\<close>

theorem rename_survives_rejected_value:
  "apply_changes fl
     \<lparr>tag = IntTag 1, parent = Some (Compound [(''a'', IntTag 1)]), key = Some (Name ''a'')\<rparr>
     ''b'' ''not-a-number''
   = \<lparr>failure = Some InvalidInteger, parent_after = Some (Compound [(''b'', IntTag 1)]),
      root_assigned = None\<rparr>"
  by (simp add: apply_changes_def rename_entry_def dict_contains_def dict_keys_def dict_pop_def
      strip_b int_nan map_Int create_tag_from_input_def numeric_from_input_def get_value_input_def)

subsection \<open>Renaming an entry of a compound\<close>




subsection \<open>The projection of an inventory\<close>

lemma fill_slots_result:
  "\<forall>e\<in>set es. \<exists>s. slot_of fl e = Inr s \<Longrightarrow>
   \<exists>m'. fill_slots fl es m = Inr m' \<and>
     (\<forall>s. m' s = (if \<exists>e\<in>set es. slot_of fl e = Inr s
                   then Some (last (filter (\<lambda>e. slot_of fl e = Inr s) es)) else m s))"
proof (induction es arbitrary: m)
  case Nil
  then show ?case by simp
next
  case (Cons e es)
  then obtain s0 where s0: "slot_of fl e = Inr s0" by auto
  from Cons.prems have "\<forall>e\<in>set es. \<exists>s. slot_of fl e = Inr s" by simp
  from Cons.IH [OF this, of "m(s0 \<mapsto> e)"] obtain m' where
    m': "fill_slots fl es (m(s0 \<mapsto> e)) = Inr m'"
    and look: "\<And>s. m' s = (if \<exists>e\<in>set es. slot_of fl e = Inr s
                   then Some (last (filter (\<lambda>e. slot_of fl e = Inr s) es)) else (m(s0 \<mapsto> e)) s)"
    by blast
  have "fill_slots fl (e # es) m = Inr m'" using s0 m' by simp
  moreover have "m' s = (if \<exists>x\<in>set (e # es). slot_of fl x = Inr s
                   then Some (last (filter (\<lambda>x. slot_of fl x = Inr s) (e # es))) else m s)" for s
    using look [of s] s0 by (auto simp: filter_empty_conv)
  ultimately show ?case by blast
qed

text \<open>
  Claim C6. For a list of entries whose slot can be read, the projection succeeds and
  maps a slot to the last entry of the list that has it, so that of two entries with
  the same slot the later one wins and no error is raised. The slot of an entry is the
  value of its \<open>Slot\<close> tag, and 0 when there is none.
\<close>

theorem projection_last_write_wins:
  assumes "\<forall>e\<in>set entries. \<exists>s. slot_of fl e = Inr s"
  shows "(\<exists>m. items_by_slot fl entries = Inr m \<and>
            (\<forall>s. m s = (if \<exists>e\<in>set entries. slot_of fl e = Inr s
                         then Some (last (filter (\<lambda>e. slot_of fl e = Inr s) entries))
                         else None)))
         \<and> (\<forall>d. dict_get d ''Slot'' = None \<longrightarrow> slot_of fl (Compound d) = Inr 0)
         \<and> (\<forall>d w. dict_get d ''Slot'' = Some (Byte w) \<longrightarrow> slot_of fl (Compound d) = Inr (sint w))
         \<and> (\<forall>d w. dict_get d ''Slot'' = Some (Short w) \<longrightarrow> slot_of fl (Compound d) = Inr (sint w))
         \<and> (\<forall>d w. dict_get d ''Slot'' = Some (IntTag w) \<longrightarrow> slot_of fl (Compound d) = Inr (sint w))
         \<and> (\<forall>d w. dict_get d ''Slot'' = Some (Long w) \<longrightarrow> slot_of fl (Compound d) = Inr (sint w))"
proof -
  from fill_slots_result [OF assms, of Map.empty]
  have "\<exists>m. items_by_slot fl entries = Inr m \<and>
            (\<forall>s. m s = (if \<exists>e\<in>set entries. slot_of fl e = Inr s
                         then Some (last (filter (\<lambda>e. slot_of fl e = Inr s) entries))
                         else None))"
    by (simp add: items_by_slot_def)
  then show ?thesis
    by (simp add: slot_of_def)
qed

theorem projection_last_write_wins_witness:
  "list_all (\<lambda>e. \<exists>s. slot_of integral_floats e = Inr s)
     [Compound [(''Slot'', Byte 5), (''id'', String ''a'')],
      Compound [(''id'', String ''b'')],
      Compound [(''Slot'', Short 5), (''id'', String ''c'')]]
   \<and> (\<exists>m. items_by_slot integral_floats
              [Compound [(''Slot'', Byte 5), (''id'', String ''a'')],
               Compound [(''id'', String ''b'')],
               Compound [(''Slot'', Short 5), (''id'', String ''c'')]] = Inr m
          \<and> m 5 = Some (Compound [(''Slot'', Short 5), (''id'', String ''c'')])
          \<and> m 0 = Some (Compound [(''id'', String ''b'')])
          \<and> m 7 = None)"
proof -
  let ?es = "[Compound [(''Slot'', Byte 5), (''id'', String ''a'')],
               Compound [(''id'', String ''b'')],
               Compound [(''Slot'', Short 5), (''id'', String ''c'')]] :: int tag list"
  have h: "\<forall>e\<in>set ?es. \<exists>s. slot_of integral_floats e = Inr s"
    by (simp add: slot_of_def dict_get_def)
  from projection_last_write_wins [OF h] obtain m where
    m: "items_by_slot integral_floats ?es = Inr m"
    and look: "\<And>s. m s = (if \<exists>e\<in>set ?es. slot_of integral_floats e = Inr s
                         then Some (last (filter (\<lambda>e. slot_of integral_floats e = Inr s) ?es))
                         else None)"
    by blast
  have "m 5 = Some (Compound [(''Slot'', Short 5), (''id'', String ''c'')])"
    using look [of 5] by (simp add: slot_of_def dict_get_def)
  moreover have "m 0 = Some (Compound [(''id'', String ''b'')])"
    using look [of 0] by (simp add: slot_of_def dict_get_def)
  moreover have "m 7 = None"
    using look [of 7] by (simp add: slot_of_def dict_get_def)
  moreover have "list_all (\<lambda>e. \<exists>s. slot_of integral_floats e = Inr s) ?es"
    using h by (simp only: list_all_iff)
  ultimately show ?thesis using m by blast
qed
subsection \<open>Looking an entry up by its slot\<close>





subsection \<open>Integer tags\<close>



lemma int_tag_value_None:
  "(int_tag_value v :: 'a::len word option) = None \<Longrightarrow>
     \<not> (- (2 ^ (LENGTH('a) - 1)) \<le> v \<and> v < 2 ^ (LENGTH('a) - 1))"
  by (auto simp: int_tag_value_def split: if_splits)

lemma byte_value_range:
  "((int_tag_value v :: 8 word option) \<noteq> None) = (- 128 \<le> v \<and> v \<le> 127)"
  by (auto simp: int_tag_value_def)

subsection \<open>Saving an inventory entry\<close>

lemma slots_of_readable:
  "(\<exists>ss. slots_of fl es = Inr ss) = (\<forall>e\<in>set es. \<exists>s. slot_of fl e = Inr s)"
  by (induction es) (auto split: sum.splits)

lemma slot_key_readable: "slot_of fl e = Inr s \<Longrightarrow> slot_key fl e = s"
  by (simp add: slot_key_def)

lemma sort_inventory_Inr:
  "sort_inventory fl es = Inr zs \<Longrightarrow>
     zs = sort_key (slot_key fl) es \<and> (\<forall>e\<in>set es. \<exists>s. slot_of fl e = Inr s)"
  using slots_of_readable [of fl es]
  by (auto simp: sort_inventory_def split: sum.splits)


lemma edit_save_success:
  assumes "edit_failure (edit_inventory_item fl st inventory slot (Save new_slot new_id new_count)) = None"
  shows "\<exists>item inventory'.
           find_inventory_item fl inventory slot None = Inr item
         \<and> find_inventory_item fl inventory new_slot item = Inr None
         \<and> store_item st inventory item new_slot new_id new_count = (None, inventory')
         \<and> (\<forall>e\<in>set inventory'. \<exists>s. slot_of fl e = Inr s)
         \<and> inventory_after (edit_inventory_item fl st inventory slot (Save new_slot new_id new_count))
             = sort_key (slot_key fl) inventory'"
proof -
  obtain item where f1: "find_inventory_item fl inventory slot None = Inr item"
    using assms
    by (cases "find_inventory_item fl inventory slot None")
      (simp_all add: edit_inventory_item_def)
  have f2: "find_inventory_item fl inventory new_slot item = Inr None"
    using assms f1
    by (cases "find_inventory_item fl inventory new_slot item")
      (auto simp: edit_inventory_item_def split: option.splits)
  obtain e inventory' where st: "store_item st inventory item new_slot new_id new_count = (e, inventory')"
    by (cases "store_item st inventory item new_slot new_id new_count")
  have e: "e = None"
    using assms f1 f2 st by (cases e) (simp_all add: edit_inventory_item_def)
  obtain zs where so: "sort_inventory fl inventory' = Inr zs"
    using assms f1 f2 st e
    by (cases "sort_inventory fl inventory'") (simp_all add: edit_inventory_item_def)
  from sort_inventory_Inr [OF so] have zs: "zs = sort_key (slot_key fl) inventory'"
    and r: "\<forall>e\<in>set inventory'. \<exists>s. slot_of fl e = Inr s"
    by simp_all
  have "inventory_after (edit_inventory_item fl st inventory slot (Save new_slot new_id new_count))
             = sort_key (slot_key fl) inventory'"
    using f1 f2 st e so zs by (simp add: edit_inventory_item_def)
  with f1 f2 st e r show ?thesis by blast
qed








text \<open>
  Claim C4. After every successful save the entries of the inventory are in ascending
  order of their slot numbers (and the slot of every entry can be read, so the order is
  that of real slot numbers): saving slot 3 into an empty list of compounds and then
  slot 1 leaves the entry of slot 1 before the entry of slot 3.
\<close>

theorem save_leaves_sorted:
  assumes "edit_failure (edit_inventory_item fl st inventory slot (Save new_slot new_id new_count)) = None"
  shows "sorted (map (slot_key fl)
           (inventory_after (edit_inventory_item fl st inventory slot (Save new_slot new_id new_count))))
       \<and> list_all (\<lambda>e. slot_of fl e = Inr (slot_key fl e))
           (inventory_after (edit_inventory_item fl st inventory slot (Save new_slot new_id new_count)))"
proof -
  from edit_save_success [OF assms] obtain inventory' where
    r: "\<forall>e\<in>set inventory'. \<exists>s. slot_of fl e = Inr s"
    and a: "inventory_after (edit_inventory_item fl st inventory slot (Save new_slot new_id new_count))
             = sort_key (slot_key fl) inventory'"
    by blast
  have "sorted (map (slot_key fl) (sort_key (slot_key fl) inventory'))"
    by (rule sorted_sort_key)
  moreover have "list_all (\<lambda>e. slot_of fl e = Inr (slot_key fl e)) (sort_key (slot_key fl) inventory')"
    using r by (auto simp: list_all_iff slot_key_def)
  ultimately show ?thesis by (simp add: a)
qed

lemma first_save:
  "edit_inventory_item integral_floats (Some KCompound) [] 3 (Save 3 ''c'' 1)
     = \<lparr>edit_failure = None,
        inventory_after = [Compound [(''Slot'', Byte 3), (''id'', String ''c''), (''Count'', Byte 1)]]\<rparr>"
  by code_simp

lemma second_save:
  "edit_inventory_item integral_floats (Some KCompound)
       [Compound [(''Slot'', Byte 3), (''id'', String ''c''), (''Count'', Byte 1)]] 1 (Save 1 ''d'' 2)
     = \<lparr>edit_failure = None,
        inventory_after = [Compound [(''Slot'', Byte 1), (''id'', String ''d''), (''Count'', Byte 2)],
                           Compound [(''Slot'', Byte 3), (''id'', String ''c''), (''Count'', Byte 1)]]\<rparr>"
  by code_simp

theorem save_leaves_sorted_witness:
  "edit_inventory_item integral_floats (Some KCompound) [] 3 (Save 3 ''c'' 1)
     = \<lparr>edit_failure = None,
        inventory_after = [Compound [(''Slot'', Byte 3), (''id'', String ''c''), (''Count'', Byte 1)]]\<rparr>
   \<and> edit_inventory_item integral_floats (Some KCompound)
       [Compound [(''Slot'', Byte 3), (''id'', String ''c''), (''Count'', Byte 1)]] 1 (Save 1 ''d'' 2)
     = \<lparr>edit_failure = None,
        inventory_after = [Compound [(''Slot'', Byte 1), (''id'', String ''d''), (''Count'', Byte 2)],
                           Compound [(''Slot'', Byte 3), (''id'', String ''c''), (''Count'', Byte 1)]]\<rparr>
   \<and> sorted (map (slot_key integral_floats)
        [Compound [(''Slot'', Byte 1), (''id'', String ''d''), (''Count'', Byte 2)],
         Compound [(''Slot'', Byte 3), (''id'', String ''c''), (''Count'', Byte 1)]])"
  using save_leaves_sorted [of integral_floats "Some KCompound"
      "[Compound [(''Slot'', Byte 3), (''id'', String ''c''), (''Count'', Byte 1)]]" 1 1 "''d''" 2]
  by (simp only: first_save second_save edited.simps simp_thms)



lemma save_150:
  "edit_inventory_item integral_floats (Some KCompound)
       [Compound [(''Slot'', Byte 5), (''id'', String ''a''), (''Count'', Byte 1)]] 150 (Save 150 ''x'' 1)
     = \<lparr>edit_failure = Some OutOfRange,
        inventory_after = [Compound [(''Slot'', Byte 5), (''id'', String ''a''), (''Count'', Byte 1)]]\<rparr>"
  by code_simp




subsection \<open>Saving over an existing entry\<close>














subsection \<open>The subtype of a list\<close>

lemma TAG_CLASS_MAP_name: "TAG_CLASS_MAP n = Some k \<Longrightarrow> n = kind_name k"
  by (auto simp: TAG_CLASS_MAP_def split: if_splits)

lemma py_strip_kind_name: "py_strip (kind_name k) = kind_name k"
  by (cases k) (simp_all add: py_strip_def py_isspace_def)

lemma TAG_CLASS_MAP_stripped:
  "TAG_CLASS_MAP n = Some k \<Longrightarrow> TAG_CLASS_MAP (py_strip n) = Some k"
  using TAG_CLASS_MAP_name [of n k] py_strip_kind_name [of k] by simp

lemma create_tag_kind:
  "create_tag_from_input fl n text = Inr t \<Longrightarrow> TAG_CLASS_MAP (py_strip n) = Some (kind_of t)"
  by (auto simp: create_tag_from_input_def numeric_from_input_def float_from_input_def
      array_from_input_def split: option.splits kind.splits sum.splits)

lemma cast_item_same: "cast_item (Some (kind_of t)) t = Inr t"
  by (simp add: cast_item_def)

lemma cast_item_other: "k \<noteq> kind_of t \<Longrightarrow> cast_item (Some k) t = Inl TypeMismatch"
  by (simp add: cast_item_def)

lemma add_typed_cases:
  "add_list_entry fl info (Some k) xs type_nm text =
     (case create_tag_from_input fl type_nm text of
        Inl e \<Rightarrow> \<lparr>add_failure = Some e, selected_after = NbtList (Some k) xs,
                   owner_after = parent info, root_after = None\<rparr>
      | Inr new_tag \<Rightarrow>
          if kind_of new_tag = k
          then \<lparr>add_failure = None, selected_after = NbtList (Some k) (xs @ [new_tag]),
                owner_after = parent info, root_after = None\<rparr>
          else \<lparr>add_failure = Some TypeMismatch, selected_after = NbtList (Some k) xs,
                owner_after = parent info, root_after = None\<rparr>)"
  by (auto simp: add_list_entry_def list_append_def cast_item_def split: sum.splits)

lemma add_untyped_success:
  assumes c: "create_tag_from_input fl type_nm text = Inr new_tag"
    and ok: "add_failure (add_list_entry fl info None [] type_nm text) = None"
  shows "selected_after (add_list_entry fl info None [] type_nm text)
           = NbtList (Some (kind_of new_tag)) [new_tag]"
proof -
  from create_tag_kind [OF c] have k: "TAG_CLASS_MAP (py_strip type_nm) = Some (kind_of new_tag)" .
  show ?thesis
  proof (cases "TAG_CLASS_MAP type_nm")
    case None
    with c ok show ?thesis by (simp add: add_list_entry_def)
  next
    case (Some lt)
    from TAG_CLASS_MAP_stripped [OF Some] k have lt: "lt = kind_of new_tag" by simp
    with c ok Some show ?thesis
      by (auto simp: add_list_entry_def Let_def list_append_def cast_item_def
          split: sum.splits prod.splits)
  qed
qed

lemma add_untyped_completes:
  assumes c: "create_tag_from_input fl type_nm text = Inr new_tag"
    and m: "TAG_CLASS_MAP type_nm = Some lt"
    and own: "parent info = None \<or> (\<exists>d n. parent info = Some (Compound d) \<and> key info = Some (Name n))"
  shows "add_failure (add_list_entry fl info None [] type_nm text) = None"
proof -
  from create_tag_kind [OF c] TAG_CLASS_MAP_stripped [OF m] have lt: "lt = kind_of new_tag"
    by simp
  from own show ?thesis
  proof
    assume "parent info = None"
    with c m lt show ?thesis
      by (simp add: add_list_entry_def Let_def list_append_def cast_item_def replace_tag_def)
  next
    assume "\<exists>d n. parent info = Some (Compound d) \<and> key info = Some (Name n)"
    then obtain d n where "parent info = Some (Compound d)" "key info = Some (Name n)" by blast
    with c m lt show ?thesis
      by (simp add: add_list_entry_def Let_def list_append_def cast_item_def replace_tag_def
          store_in_parent_def)
  qed
qed

lemma store_in_list_typed:
  assumes "store_in_parent (NbtList (Some k) xs) (Index i) t = Inr p'"
  shows "subtype_of p' = Some k \<and> (list_typed (NbtList (Some k) xs) \<longrightarrow> list_typed p')"
proof -
  from assms have t: "kind_of t = k" and i: "i < length xs" and p': "p' = NbtList (Some k) (xs[i := t])"
    by (auto simp: store_in_parent_def list_set_def cast_item_def split: sum.splits if_splits)
  have "list_typed (NbtList (Some k) xs) \<Longrightarrow> list_typed (NbtList (Some k) (xs[i := t]))"
    using t set_update_subset_insert [of xs i t] by (auto simp: list_all_iff)
  with p' show ?thesis by simp
qed

text \<open>
  Claim C2. The first entry added to an untyped list gives the list the kind of that
  entry as its subtype (and the addition completes for a list owned by a compound or
  standing at the root, when the type name is one of the twelve). From then on an addition
  never changes the subtype and keeps every item of the kind of the subtype: an entry of
  the subtype is appended at the end, an entry of another kind is refused with
  \<open>TypeMismatch\<close> and the list stays as it was. Replacing an item of the list keeps
  the subtype and the kinds as well.
\<close>

theorem list_subtype_fixed_on_insert:
  "(create_tag_from_input fl type_nm value_text = Inr new_tag
      \<and> add_failure (add_list_entry fl info None [] type_nm value_text) = None \<longrightarrow>
      selected_after (add_list_entry fl info None [] type_nm value_text)
        = NbtList (Some (kind_of new_tag)) [new_tag])
   \<and> (create_tag_from_input fl type_nm value_text = Inr new_tag \<and> TAG_CLASS_MAP type_nm = Some lt
      \<and> (parent info = None
           \<or> (\<exists>d n. parent info = Some (Compound d) \<and> key info = Some (Name n))) \<longrightarrow>
      add_failure (add_list_entry fl info None [] type_nm value_text) = None)
   \<and> subtype_of (selected_after (add_list_entry fl info (Some k) xs type_nm value_text)) = Some k
   \<and> (list_typed (NbtList (Some k) xs) \<longrightarrow>
        list_typed (selected_after (add_list_entry fl info (Some k) xs type_nm value_text)))
   \<and> (create_tag_from_input fl type_nm value_text = Inr new_tag \<and> kind_of new_tag \<noteq> k \<longrightarrow>
        add_list_entry fl info (Some k) xs type_nm value_text
          = \<lparr>add_failure = Some TypeMismatch, selected_after = NbtList (Some k) xs,
             owner_after = parent info, root_after = None\<rparr>)
   \<and> (create_tag_from_input fl type_nm value_text = Inr new_tag \<and> kind_of new_tag = k \<longrightarrow>
        add_list_entry fl info (Some k) xs type_nm value_text
          = \<lparr>add_failure = None, selected_after = NbtList (Some k) (xs @ [new_tag]),
             owner_after = parent info, root_after = None\<rparr>)
   \<and> (store_in_parent (NbtList (Some k) xs) (Index i) t = Inr p' \<longrightarrow>
        subtype_of p' = Some k \<and> (list_typed (NbtList (Some k) xs) \<longrightarrow> list_typed p'))"
proof (intro conjI impI)
  assume "create_tag_from_input fl type_nm value_text = Inr new_tag
      \<and> add_failure (add_list_entry fl info None [] type_nm value_text) = None"
  then show "selected_after (add_list_entry fl info None [] type_nm value_text)
        = NbtList (Some (kind_of new_tag)) [new_tag]"
    using add_untyped_success by blast
next
  assume "create_tag_from_input fl type_nm value_text = Inr new_tag \<and> TAG_CLASS_MAP type_nm = Some lt
      \<and> (parent info = None
           \<or> (\<exists>d n. parent info = Some (Compound d) \<and> key info = Some (Name n)))"
  then show "add_failure (add_list_entry fl info None [] type_nm value_text) = None"
    using add_untyped_completes by blast
next
  show "subtype_of (selected_after (add_list_entry fl info (Some k) xs type_nm value_text)) = Some k"
    by (simp add: add_typed_cases split: sum.splits)
next
  assume "list_typed (NbtList (Some k) xs)"
  then show "list_typed (selected_after (add_list_entry fl info (Some k) xs type_nm value_text))"
    by (simp add: add_typed_cases split: sum.splits)
next
  assume "create_tag_from_input fl type_nm value_text = Inr new_tag \<and> kind_of new_tag \<noteq> k"
  then show "add_list_entry fl info (Some k) xs type_nm value_text
          = \<lparr>add_failure = Some TypeMismatch, selected_after = NbtList (Some k) xs,
             owner_after = parent info, root_after = None\<rparr>"
    by (simp add: add_typed_cases)
next
  assume "create_tag_from_input fl type_nm value_text = Inr new_tag \<and> kind_of new_tag = k"
  then show "add_list_entry fl info (Some k) xs type_nm value_text
          = \<lparr>add_failure = None, selected_after = NbtList (Some k) (xs @ [new_tag]),
             owner_after = parent info, root_after = None\<rparr>"
    by (simp add: add_typed_cases)
next
  assume "store_in_parent (NbtList (Some k) xs) (Index i) t = Inr p'"
  from store_in_list_typed [OF this]
  show "subtype_of p' = Some k" and "list_typed (NbtList (Some k) xs) \<Longrightarrow> list_typed p'"
    by simp_all
qed
lemma create_int_7: "create_tag_from_input integral_floats ''Int'' ''7'' = Inr (IntTag 7)"
  by code_simp

lemma create_string_x: "create_tag_from_input integral_floats ''String'' ''x'' = Inr (String ''x'')"
  by code_simp

lemma class_of_Int: "TAG_CLASS_MAP ''Int'' = Some KInt"
  by code_simp

lemma first_insert:
  "add_list_entry integral_floats
     \<lparr>tag = NbtList None [], parent = Some (Compound [(''L'', NbtList None [])]),
      key = Some (Name ''L'')\<rparr> None [] ''Int'' ''7''
   = \<lparr>add_failure = None, selected_after = NbtList (Some KInt) [IntTag 7],
      owner_after = Some (Compound [(''L'', NbtList (Some KInt) [IntTag 7])]),
      root_after = None\<rparr>"
  by code_simp

theorem list_subtype_fixed_on_insert_witness:
  "add_list_entry integral_floats
     \<lparr>tag = NbtList None [], parent = Some (Compound [(''L'', NbtList None [])]),
      key = Some (Name ''L'')\<rparr> None [] ''Int'' ''7''
   = \<lparr>add_failure = None, selected_after = NbtList (Some KInt) [IntTag 7],
      owner_after = Some (Compound [(''L'', NbtList (Some KInt) [IntTag 7])]),
      root_after = None\<rparr>
   \<and> selected_after (add_list_entry integral_floats
        \<lparr>tag = NbtList None [], parent = Some (Compound [(''L'', NbtList None [])]),
         key = Some (Name ''L'')\<rparr> None [] ''Int'' ''7'')
     = NbtList (Some (kind_of (IntTag 7 :: int tag))) [IntTag 7]
   \<and> list_typed (NbtList (Some KInt) [IntTag 7 :: int tag])
   \<and> add_list_entry integral_floats
        \<lparr>tag = NbtList (Some KInt) [IntTag 7],
         parent = Some (Compound [(''L'', NbtList (Some KInt) [IntTag 7])]),
         key = Some (Name ''L'')\<rparr> (Some KInt) [IntTag 7] ''String'' ''x''
     = \<lparr>add_failure = Some TypeMismatch, selected_after = NbtList (Some KInt) [IntTag 7],
        owner_after = Some (Compound [(''L'', NbtList (Some KInt) [IntTag 7])]),
        root_after = None\<rparr>"
proof -
  let ?info0 = "\<lparr>tag = NbtList None [], parent = Some (Compound [(''L'', NbtList None [])]),
      key = Some (Name ''L'')\<rparr> :: int node_info"
  let ?info1 = "\<lparr>tag = NbtList (Some KInt) [IntTag 7],
         parent = Some (Compound [(''L'', NbtList (Some KInt) [IntTag 7])]),
         key = Some (Name ''L'')\<rparr> :: int node_info"
  note first = list_subtype_fixed_on_insert [where fl = integral_floats and type_nm = "''Int''"
      and value_text = "''7''" and new_tag = "IntTag 7" and info = "?info0" and lt = KInt]
  from first create_int_7 class_of_Int
  have ok: "add_failure (add_list_entry integral_floats ?info0 None [] ''Int'' ''7'') = None"
    by simp
  from first create_int_7 ok
  have sel: "selected_after (add_list_entry integral_floats ?info0 None [] ''Int'' ''7'')
     = NbtList (Some (kind_of (IntTag 7 :: int tag))) [IntTag 7]"
    by blast
  note second = list_subtype_fixed_on_insert [where fl = integral_floats
      and type_nm = "''String''" and value_text = "''x''" and new_tag = "String ''x''"
      and info = "?info1" and k = KInt and xs = "[IntTag 7]"]
  from second create_string_x
  have mismatch: "add_list_entry integral_floats ?info1 (Some KInt) [IntTag 7] ''String'' ''x''
     = \<lparr>add_failure = Some TypeMismatch, selected_after = NbtList (Some KInt) [IntTag 7],
        owner_after = Some (Compound [(''L'', NbtList (Some KInt) [IntTag 7])]),
        root_after = None\<rparr>"
    by simp
  have typed: "list_typed (NbtList (Some KInt) [IntTag 7 :: int tag])"
    by simp
  from first_insert sel typed mismatch show ?thesis by blast
qed


subsection \<open>Decimal digits\<close>











subsection \<open>Stripping, and reading back what \<open>str\<close> wrote\<close>














subsection \<open>Splitting and joining\<close>

lemma py_split_nonempty: "py_split sep s \<noteq> []"
  by (induction s) (auto simp: Let_def)

lemma py_split_no_sep: "sep \<notin> set s \<Longrightarrow> py_split sep s = [s]"
  by (induction s) (auto simp: Let_def)

lemma py_split_append: "py_split sep (a @ sep # b) = py_split sep a @ py_split sep b"
proof (induction a)
  case Nil
  then show ?case by simp
next
  case (Cons c a)
  show ?case
  proof (cases "c = sep")
    case True
    with Cons show ?thesis by simp
  next
    case False
    with Cons py_split_nonempty [of sep a] show ?thesis
      by (cases "py_split sep a") (simp_all add: Let_def)
  qed
qed

lemma space_not_comma: "py_isspace c \<Longrightarrow> c \<noteq> CHR '',''"
  by (auto simp: py_isspace_def)



lemma int_list_parts_append:
  "int_list_parts (a @ CHR '','' # b) = int_list_parts a @ int_list_parts b"
  by (simp add: int_list_parts_def py_split_append)






subsection \<open>The round trip through the editable text\<close>



















subsection \<open>Coercion of arrays\<close>












lemma strip_ByteArray: "py_strip ''ByteArray'' = ''ByteArray''"
  using py_strip_kind_name [of KByteArray] by simp

lemma strip_IntArray: "py_strip ''IntArray'' = ''IntArray''"
  using py_strip_kind_name [of KIntArray] by simp

lemma strip_LongArray: "py_strip ''LongArray'' = ''LongArray''"
  using py_strip_kind_name [of KLongArray] by simp

lemma create_arrays:
  "create_tag_from_input fl ''ByteArray'' value_text
     = array_from_input ByteArray (Some (- 128)) (Some 127) value_text"
  "create_tag_from_input fl ''IntArray'' value_text = array_from_input IntArray None None value_text"
  "create_tag_from_input fl ''LongArray'' value_text = array_from_input LongArray None None value_text"
  by (simp_all add: create_tag_from_input_def strip_ByteArray strip_IntArray strip_LongArray
      TAG_CLASS_MAP_def)





subsection \<open>Empty segments of an integer list\<close>

lemma py_strip_blank:
  assumes "\<forall>c\<in>set ws. py_isspace c"
  shows "py_strip ws = []"
proof -
  from assms have d: "dropWhile py_isspace ws = []" by (simp only: dropWhile_eq_Nil_conv)
  show ?thesis unfolding py_strip_def d by simp
qed

lemma int_list_parts_blank:
  assumes "\<forall>c\<in>set ws. py_isspace c"
  shows "int_list_parts ws = []"
proof -
  from assms have "CHR '','' \<notin> set ws" using space_not_comma by auto
  then have "py_split CHR '','' ws = [ws]" by (rule py_split_no_sep)
  with py_strip_blank [OF assms] show ?thesis by (simp add: int_list_parts_def)
qed

text \<open>
  Claim C10. Array coercion skips the comma-separated segments that are empty after
  trimming white space: a blank segment between two commas, after the last comma or
  before the first one adds nothing to the segments that are parsed, and the texts
  \<open>1,,2\<close>, \<open>1, ,2\<close> and \<open>1,2,\<close> all give the array \<open>[1, 2]\<close>, none of them
  failing with \<open>InvalidInteger\<close>.
\<close>

theorem empty_segments_skipped:
  "((\<forall>c\<in>set ws. py_isspace c) \<longrightarrow>
      int_list_parts (a @ '','' @ ws @ '','' @ b) = int_list_parts (a @ '','' @ b)
      \<and> int_list_parts (a @ '','' @ ws) = int_list_parts a
      \<and> int_list_parts (ws @ '','' @ b) = int_list_parts b)
   \<and> create_tag_from_input fl ''IntArray'' ''1,,2'' = Inr (IntArray [1, 2])
   \<and> create_tag_from_input fl ''IntArray'' ''1, ,2'' = Inr (IntArray [1, 2])
   \<and> create_tag_from_input fl ''IntArray'' ''1,2,'' = Inr (IntArray [1, 2])"
proof (intro conjI impI)
  assume ws: "\<forall>c\<in>set ws. py_isspace c"
  from int_list_parts_blank [OF ws]
  show "int_list_parts (a @ '','' @ ws @ '','' @ b) = int_list_parts (a @ '','' @ b)"
    and "int_list_parts (a @ '','' @ ws) = int_list_parts a"
    and "int_list_parts (ws @ '','' @ b) = int_list_parts b"
    by (simp_all add: int_list_parts_append)
next
  have a: "parse_int_list ''1,,2'' None None = Inr [1, 2]"
    by code_simp
  then show "create_tag_from_input fl ''IntArray'' ''1,,2'' = Inr (IntArray [1, 2])"
    by (simp add: create_arrays array_from_input_def int_tag_value_def)
next
  have b: "parse_int_list ''1, ,2'' None None = Inr [1, 2]"
    by code_simp
  then show "create_tag_from_input fl ''IntArray'' ''1, ,2'' = Inr (IntArray [1, 2])"
    by (simp add: create_arrays array_from_input_def int_tag_value_def)
next
  have c: "parse_int_list ''1,2,'' None None = Inr [1, 2]"
    by code_simp
  then show "create_tag_from_input fl ''IntArray'' ''1,2,'' = Inr (IntArray [1, 2])"
    by (simp add: create_arrays array_from_input_def int_tag_value_def)
qed

theorem empty_segments_skipped_witness:
  "list_all py_isspace '' ''
   \<and> int_list_parts ''1, ,2'' = int_list_parts ''1,2''
   \<and> int_list_parts ''1,2'' = [''1'', ''2'']
   \<and> create_tag_from_input integral_floats ''IntArray'' ''1, ,2'' = Inr (IntArray [1, 2])"
proof -
  have ws: "\<forall>c\<in>set '' ''. py_isspace c" by (simp add: py_isspace_def)
  from empty_segments_skipped [where ws = "'' ''" and a = "''1''" and b = "''2''"
      and fl = integral_floats] ws
  have "int_list_parts ''1, ,2'' = int_list_parts ''1,2''"
    and "create_tag_from_input integral_floats ''IntArray'' ''1, ,2'' = Inr (IntArray [1, 2])"
    by simp_all
  moreover have "int_list_parts ''1,2'' = [''1'', ''2'']" by code_simp
  moreover have "list_all py_isspace '' ''" by (simp add: py_isspace_def)
  ultimately show ?thesis by blast
qed


end
